theory Spec2Isabelle
  imports Main
begin

section \<open>The job entity\<close>

text \<open>
  The development embeds the class \<open>IndexedDbJobQueue\<close>: a job queue whose jobs live in
  an IndexedDB object store \<open>jobs\<close> (key path \<open>id\<close>) with the indexes \<open>status\<close>,
  \<open>status_runAfter\<close>, \<open>jobRunId\<close> and \<open>taskType_fingerprint_status\<close>.
\<close>

text \<open>
  Modelled from the spec: the enum \<open>JobStatus\<close> is imported from the core package and
  its declaration is not among the sources; its members are the statuses of the data
  model.
\<close>

datatype JobStatus = PENDING | PROCESSING | ABORTING | COMPLETED | FAILED | SKIPPED

text \<open>
  The JavaScript values a job's input and output range over here: \<open>null\<close>, booleans,
  strings and plain objects (a list of own properties in insertion order).
\<close>

datatype jsval =
    JNull
  | JBool bool
  | JStr string
  | JObj "(string \<times> jsval) list"

text \<open>
  Modelled from the spec: the error classes are imported from the core package and their
  declarations are not among the sources. An error carries its \<open>message\<close>; a
  \<open>RetryableJobError\<close> also carries its \<open>retryDate\<close>. \<open>JobError\<close> is the base class, which stands for every error that is none of the three named kinds.
  Dates are milliseconds since the epoch.
\<close>

datatype JobError =
    JobError string
  | RetryableJobError string int
  | PermanentJobError string
  | AbortSignalJobError string

fun message :: "JobError \<Rightarrow> string" where
  "message (JobError m) = m"
| "message (RetryableJobError m d) = m"
| "message (PermanentJobError m) = m"
| "message (AbortSignalJobError m) = m"

subsection \<open>Numbers\<close>

text \<open>
  The counters \<open>retries\<close> and \<open>maxRetries\<close> are JavaScript numbers, that is, doubles. The
  model covers the integer-valued ones. A double has 53 significant bits: above \<open>2^53\<close>
  only the multiples of \<open>ulp\<close>, a power of two, are numbers. \<open>round_nat\<close> rounds a natural
  number to the nearest such multiple, and a tie to the one whose quotient is even;
  \<open>round_double\<close> does so for an integer of either sign. (The exponent is not bounded
  here: the integers beyond the largest double that have 53 significant bits count as
  numbers as well.)
\<close>

function ulp :: "nat \<Rightarrow> nat" where
  "ulp a = (if a < 9007199254740992 then 1 else 2 * ulp (a div 2))"
  by pat_completeness auto
termination
  by (relation "measure id") auto

declare ulp.simps [simp del]

definition round_nat :: "nat \<Rightarrow> nat" where
  "round_nat a =
     (let u = ulp a; q = a div u; r = a mod u
      in if 2 * r < u then q * u
         else if u < 2 * r then (q + 1) * u
         else if even q then q * u
         else (q + 1) * u)"

definition round_double :: "int \<Rightarrow> int" where
  "round_double x = (if x < 0 then - int (round_nat (nat (- x))) else int (round_nat (nat x)))"

text \<open>A natural number is representable when it is a multiple of its \<open>ulp\<close>.\<close>

definition representable :: "nat \<Rightarrow> bool" where
  "representable b \<longleftrightarrow> b mod ulp b = 0"

text \<open>
  The type of the integer-valued numbers: the integers that rounding leaves as they are.
  \<open>int_of\<close> is the integer a number stands for, \<open>number n\<close> is the number that the
  integer literal \<open>n\<close> denotes, and numbers compare as their integers do.
\<close>

typedef jsnumber = "{n :: int. round_double n = n}"
  morphisms int_of Abs_jsnumber
  by (rule exI[of _ 0]) (simp add: round_double_def round_nat_def ulp.simps)

definition number :: "int \<Rightarrow> jsnumber" where
  "number n = Abs_jsnumber (round_double n)"

instantiation jsnumber :: ord
begin
definition less_eq_jsnumber :: "jsnumber \<Rightarrow> jsnumber \<Rightarrow> bool" where
  "less_eq_jsnumber x y \<longleftrightarrow> int_of x \<le> int_of y"
definition less_jsnumber :: "jsnumber \<Rightarrow> jsnumber \<Rightarrow> bool" where
  "less_jsnumber x y \<longleftrightarrow> int_of x < int_of y"
instance ..
end

text \<open>
  \<open>x + 1\<close> on numbers is the exact sum, rounded. \<open>js_or_zero x\<close> is \<open>x || 0\<close>: zero is
  the one falsy number of the type.
\<close>

definition plus_one :: "jsnumber \<Rightarrow> jsnumber" where
  "plus_one x = number (int_of x + 1)"

definition js_or_zero :: "jsnumber \<Rightarrow> jsnumber" where
  "js_or_zero x = (if int_of x = 0 then number 0 else x)"

text \<open>
  The fields of a job that the queue reads or writes. \<open>id\<close>, \<open>jobRunId\<close>, \<open>queueName\<close>,
  \<open>fingerprint\<close> and \<open>error\<close> may be undefined (\<open>None\<close>). The fields \<open>id\<close> and
  \<open>output\<close> are named \<open>job_id\<close> and \<open>job_output\<close> here.
\<close>

record 'i Job =
  job_id :: "string option"
  jobRunId :: "string option"
  queueName :: "string option"
  taskType :: string
  input :: 'i
  fingerprint :: "string option"
  status :: JobStatus
  job_output :: jsval
  error :: "string option"
  retries :: jsnumber
  maxRetries :: jsnumber
  runAfter :: int

section \<open>IndexedDB keys, key ranges and the object store\<close>

text \<open>
  An IndexedDB key is a number, a date, a string or an array of keys. Keys of different
  types are ordered by type: number, then date, then string, then array, so an array key
  is greater than every string key. Strings compare by code unit, arrays element by
  element and then by length. \<open>compare_keys a b\<close> is \<open>-1\<close>, \<open>0\<close> or \<open>1\<close>.
\<close>

datatype idb_key =
    KNumber int
  | KDate int
  | KString string
  | KArray "idb_key list"

fun compare_strings :: "string \<Rightarrow> string \<Rightarrow> int" where
  "compare_strings [] [] = 0"
| "compare_strings [] (y # ys) = -1"
| "compare_strings (x # xs) [] = 1"
| "compare_strings (x # xs) (y # ys) =
     (if (of_char x :: nat) < of_char y then -1
      else if (of_char y :: nat) < of_char x then 1
      else compare_strings xs ys)"

fun compare_keys :: "idb_key \<Rightarrow> idb_key \<Rightarrow> int"
  and compare_arrays :: "idb_key list \<Rightarrow> idb_key list \<Rightarrow> int" where
  "compare_keys (KArray xs) (KArray ys) = compare_arrays xs ys"
| "compare_keys (KArray xs) (KString t) = 1"
| "compare_keys (KArray xs) (KDate e) = 1"
| "compare_keys (KArray xs) (KNumber n) = 1"
| "compare_keys (KString s) (KArray ys) = -1"
| "compare_keys (KDate d) (KArray ys) = -1"
| "compare_keys (KNumber m) (KArray ys) = -1"
| "compare_keys (KString s) (KString t) = compare_strings s t"
| "compare_keys (KString s) (KDate e) = 1"
| "compare_keys (KString s) (KNumber n) = 1"
| "compare_keys (KDate d) (KString t) = -1"
| "compare_keys (KNumber m) (KString t) = -1"
| "compare_keys (KDate d) (KDate e) = (if d < e then -1 else if e < d then 1 else 0)"
| "compare_keys (KDate d) (KNumber n) = 1"
| "compare_keys (KNumber m) (KDate e) = -1"
| "compare_keys (KNumber m) (KNumber n) = (if m < n then -1 else if n < m then 1 else 0)"
| "compare_arrays [] [] = 0"
| "compare_arrays [] (y # ys) = -1"
| "compare_arrays (x # xs) [] = 1"
| "compare_arrays (x # xs) (y # ys) =
     (let c = compare_keys x y in if c \<noteq> 0 then c else compare_arrays xs ys)"

text \<open>
  A key range with both bounds closed. \<open>IDBKeyRange.only(k)\<close> has \<open>k\<close> as both bounds;
  a key passed where a range is expected stands for \<open>only\<close> of that key. A key is in the
  range when it is neither less than the lower nor greater than the upper bound.
\<close>

record key_range =
  lower :: idb_key
  upper :: idb_key

definition only :: "idb_key \<Rightarrow> key_range" where
  "only k = \<lparr>lower = k, upper = k\<rparr>"

definition in_range :: "key_range \<Rightarrow> idb_key \<Rightarrow> bool" where
  "in_range r k \<longleftrightarrow> compare_keys (lower r) k \<le> 0 \<and> compare_keys k (upper r) \<le> 0"

text \<open>
  The object store \<open>jobs\<close> has the in-line key path \<open>id\<close>: the key of a record is the
  \<open>id\<close> of the stored job. The store holds its records in ascending order of their keys.
\<close>

type_synonym 'i object_store = "'i Job list"

datatype idb_error = ConstraintError | DataError

fun id_less :: "string option \<Rightarrow> string option \<Rightarrow> bool" where
  "id_less (Some a) (Some b) = (compare_strings a b < 0)"
| "id_less a b = False"

definition store_get :: "string \<Rightarrow> 'i object_store \<Rightarrow> 'i Job option" where
  "store_get k st = find (\<lambda>j. job_id j = Some k) st"

fun insert_record :: "'i Job \<Rightarrow> 'i object_store \<Rightarrow> 'i object_store" where
  "insert_record j [] = [j]"
| "insert_record j (x # xs) =
     (if id_less (job_id j) (job_id x) then j # x # xs else x # insert_record j xs)"

text \<open>
  \<open>add\<close> on the store fails with a \<open>ConstraintError\<close> when a record with the key exists;
  \<open>put\<close> replaces that record instead. Both fail with a \<open>DataError\<close> when the key path
  yields no key.
\<close>

definition store_add :: "'i Job \<Rightarrow> 'i object_store \<Rightarrow> idb_error + 'i object_store" where
  "store_add j st =
     (case job_id j of
        None \<Rightarrow> Inl DataError
      | Some k \<Rightarrow>
          (case store_get k st of
             Some x \<Rightarrow> Inl ConstraintError
           | None \<Rightarrow> Inr (insert_record j st)))"

definition store_put :: "'i Job \<Rightarrow> 'i object_store \<Rightarrow> idb_error + 'i object_store" where
  "store_put j st =
     (case job_id j of
        None \<Rightarrow> Inl DataError
      | Some k \<Rightarrow>
          (case store_get k st of
             Some x \<Rightarrow> Inr (map (\<lambda>y. if job_id y = Some k then j else y) st)
           | None \<Rightarrow> Inr (insert_record j st)))"

subsection \<open>Indexes\<close>

text \<open>
  Modelled from the spec: the string values of the members of \<open>JobStatus\<close> are not among
  the sources; each member is taken to be the string of its name. As a key, a status is
  a string key.
\<close>

fun status_key :: "JobStatus \<Rightarrow> idb_key" where
  "status_key PENDING = KString ''PENDING''"
| "status_key PROCESSING = KString ''PROCESSING''"
| "status_key ABORTING = KString ''ABORTING''"
| "status_key COMPLETED = KString ''COMPLETED''"
| "status_key FAILED = KString ''FAILED''"
| "status_key SKIPPED = KString ''SKIPPED''"

text \<open>
  The four indexes the constructor creates, each with its key path. A key path that is a
  list of properties yields an array key; a record for which a property of the key path is
  undefined has no entry in the index.
\<close>

datatype index_name =
    status_index
  | status_runAfter_index
  | jobRunId_index
  | taskType_fingerprint_status_index

fun index_key :: "index_name \<Rightarrow> 'i Job \<Rightarrow> idb_key option" where
  "index_key status_index j = Some (status_key (status j))"
| "index_key status_runAfter_index j =
     Some (KArray [status_key (status j), KDate (runAfter j)])"
| "index_key jobRunId_index j = map_option KString (jobRunId j)"
| "index_key taskType_fingerprint_status_index j =
     (case fingerprint j of
        None \<Rightarrow> None
      | Some f \<Rightarrow> Some (KArray [KString (taskType j), KString f, status_key (status j)]))"

text \<open>
  The records of an index: one entry (index key, stored job) for each record of the store
  that has an index key, in ascending order of the index key and, among equal index keys,
  of the primary key.
\<close>

definition record_less :: "idb_key \<times> 'i Job \<Rightarrow> idb_key \<times> 'i Job \<Rightarrow> bool" where
  "record_less a b \<longleftrightarrow>
     compare_keys (fst a) (fst b) < 0 \<or>
     (compare_keys (fst a) (fst b) = 0 \<and> id_less (job_id (snd a)) (job_id (snd b)))"

fun index_insert :: "idb_key \<times> 'i Job \<Rightarrow> (idb_key \<times> 'i Job) list \<Rightarrow> (idb_key \<times> 'i Job) list" where
  "index_insert r [] = [r]"
| "index_insert r (x # xs) =
     (if record_less r x then r # x # xs else x # index_insert r xs)"

fun index_entries :: "index_name \<Rightarrow> 'i object_store \<Rightarrow> (idb_key \<times> 'i Job) list" where
  "index_entries ix [] = []"
| "index_entries ix (j # js) =
     (case index_key ix j of
        None \<Rightarrow> index_entries ix js
      | Some k \<Rightarrow> (k, j) # index_entries ix js)"

definition index_records :: "index_name \<Rightarrow> 'i object_store \<Rightarrow> (idb_key \<times> 'i Job) list" where
  "index_records ix st = foldr index_insert (index_entries ix st) []"

text \<open>
  \<open>index_first\<close> is the record a cursor opened on the range in direction \<open>next\<close> starts
  at, and the record \<open>index.get\<close> retrieves: the first record of the index whose key is
  in the range. \<open>index_getAll\<close> is \<open>index.getAll\<close> with its optional count.
\<close>

definition index_first :: "index_name \<Rightarrow> key_range \<Rightarrow> 'i object_store \<Rightarrow> (idb_key \<times> 'i Job) option" where
  "index_first ix r st = find (\<lambda>e. in_range r (fst e)) (index_records ix st)"

definition index_getAll :: "index_name \<Rightarrow> key_range \<Rightarrow> nat option \<Rightarrow> 'i object_store \<Rightarrow> 'i Job list" where
  "index_getAll ix r count st =
     (let found = map snd (filter (\<lambda>e. in_range r (fst e)) (index_records ix st))
      in case count of None \<Rightarrow> found | Some n \<Rightarrow> take n found)"

section \<open>The queue\<close>

text \<open>
  The state of a queue: its name, the object store, and the calls it has made to the
  methods \<open>onCompleted\<close> and \<open>abortJob\<close> of its base class \<open>JobQueue\<close>, which is not among the
  sources; the calls are recorded in the order they are made.
\<close>

datatype base_call =
    OnCompleted "string option" JobStatus jsval "JobError option"
  | AbortJob string

record 'i IndexedDbJobQueue =
  queue :: string
  jobs :: "'i object_store"
  calls :: "base_call list"

text \<open>
  What becomes of the promise an operation returns: resolved with a value, rejected with
  a reason, or never settled (an exception thrown inside an event handler leaves the promise
  pending).
\<close>

text \<open>
  The reason of a rejection: the error "Job id not found"; an exception that a call to
  the store threw; or the value of \<open>tx.error\<close> as the handler \<open>tx.onerror\<close> reads it
  (\<open>None\<close> for \<open>null\<close>).
\<close>

datatype rejection =
    NotFound string
  | Thrown idb_error
  | TransactionError "idb_error option"

datatype 'a promise = Resolved 'a | Rejected rejection | Unsettled

subsection \<open>add, get, next\<close>

text \<open>
  \<open>add\<close> gives the job an \<open>id\<close> and a \<open>jobRunId\<close> when they are absent, sets its
  \<open>queueName\<close> and \<open>fingerprint\<close>, and adds it to the store. \<open>makeFingerprint\<close> comes from
  a utility module that is not among the sources, and is a parameter; \<open>nanoid1\<close> and
  \<open>nanoid2\<close> are the identifiers the id generator yields when it is asked for the \<open>id\<close>
  and for the \<open>jobRunId\<close>. The promise resolves with the job's \<open>id\<close> when the transaction
  completes. When a record with the key exists, the request fails and its error event
  reaches the handler \<open>tx.onerror\<close>, which rejects with \<open>tx.error\<close>. The error of a
  transaction is set when the transaction is aborted, which happens only after the event
  has been dispatched: in the handler \<open>tx.error\<close> is still \<open>null\<close>. A key that is no
  valid key makes the call to the store throw.
\<close>

definition add :: "('i \<Rightarrow> string) \<Rightarrow> string \<Rightarrow> string \<Rightarrow> 'i Job \<Rightarrow> 'i IndexedDbJobQueue
    \<Rightarrow> string promise \<times> 'i IndexedDbJobQueue" where
  "add makeFingerprint nanoid1 nanoid2 job q =
     (let k = (case job_id job of Some i \<Rightarrow> i | None \<Rightarrow> nanoid1);
          r = (case jobRunId job of Some i \<Rightarrow> i | None \<Rightarrow> nanoid2);
          job' = job\<lparr>job_id := Some k, jobRunId := Some r, queueName := Some (queue q),
                     fingerprint := Some (makeFingerprint (input job))\<rparr>
      in case store_add job' (jobs q) of
           Inl DataError \<Rightarrow> (Rejected (Thrown DataError), q)
         | Inl ConstraintError \<Rightarrow> (Rejected (TransactionError None), q)
         | Inr st \<Rightarrow> (Resolved k, q\<lparr>jobs := st\<rparr>))"

definition get :: "string \<Rightarrow> 'i IndexedDbJobQueue \<Rightarrow> 'i Job option promise" where
  "get k q = Resolved (store_get k (jobs q))"

text \<open>
  \<open>next\<close> opens a cursor on the index \<open>status_runAfter\<close> with the range
  \<open>IDBKeyRange.only(JobStatus.PENDING)\<close>. When the cursor has a record, the job is set
  to \<open>PROCESSING\<close>, written back through the cursor and returned; otherwise the result is
  undefined. The range is the one the source passes: its two bounds are the string key of
  \<open>PENDING\<close>, while the keys of the index are the arrays \<open>[status, runAfter]\<close>.
\<close>

definition next_job :: "'i IndexedDbJobQueue \<Rightarrow> 'i Job option promise \<times> 'i IndexedDbJobQueue" where
  "next_job q =
     (case index_first status_runAfter_index (only (status_key PENDING)) (jobs q) of
        Some cursor \<Rightarrow>
          (let job = (snd cursor)\<lparr>status := PROCESSING\<rparr>
           in case store_put job (jobs q) of
                Inl e \<Rightarrow> (Unsettled, q)
              | Inr st \<Rightarrow> (Resolved (Some job), q\<lparr>jobs := st\<rparr>))
      | None \<Rightarrow> (Resolved None, q))"


definition peek :: "nat \<Rightarrow> 'i IndexedDbJobQueue \<Rightarrow> 'i Job list promise" where
  "peek num q =
     Resolved (index_getAll status_runAfter_index (only (status_key PENDING))
       (if num = 0 then None else Some num) (jobs q))"

definition processing :: "'i IndexedDbJobQueue \<Rightarrow> 'i Job list promise" where
  "processing q = Resolved (index_getAll status_index (only (status_key PROCESSING)) None (jobs q))"

definition aborting :: "'i IndexedDbJobQueue \<Rightarrow> 'i Job list promise" where
  "aborting q = Resolved (index_getAll status_index (only (status_key ABORTING)) None (jobs q))"

definition queue_size :: "'i IndexedDbJobQueue \<Rightarrow> nat promise" where
  "queue_size q = Resolved (length (jobs q))"

definition deleteAll :: "'i IndexedDbJobQueue \<Rightarrow> unit promise \<times> 'i IndexedDbJobQueue" where
  "deleteAll q = (Resolved (), q\<lparr>jobs := []\<rparr>)"

subsection \<open>complete and abort\<close>

text \<open>
  The update \<open>complete\<close> applies to the job it has read. With an error: the message is
  recorded, \<open>retries\<close> becomes \<open>(retries || 0) + 1\<close> in the arithmetic of numbers, and the
  status is \<open>FAILED\<close>, except
  for a \<open>RetryableJobError\<close> whose incremented \<open>retries\<close> is still below \<open>maxRetries\<close>:
  then the status is \<open>PENDING\<close> and \<open>runAfter\<close> is the error's \<open>retryDate\<close>. Without an
  error: the status is \<open>COMPLETED\<close> and the output is stored.
\<close>

definition complete_update :: "jsval \<Rightarrow> JobError option \<Rightarrow> 'i Job \<Rightarrow> 'i Job" where
  "complete_update out err job =
     (case err of
        Some e \<Rightarrow>
          (let j1 = job\<lparr>error := Some (message e),
                         retries := plus_one (js_or_zero (retries job))\<rparr>
           in case e of
                RetryableJobError m retryDate \<Rightarrow>
                  (if retries j1 \<ge> maxRetries j1 then j1\<lparr>status := FAILED\<rparr>
                   else j1\<lparr>status := PENDING, runAfter := retryDate\<rparr>)
              | PermanentJobError m \<Rightarrow> j1\<lparr>status := FAILED\<rparr>
              | _ \<Rightarrow> j1\<lparr>status := FAILED\<rparr>)
      | None \<Rightarrow> job\<lparr>status := COMPLETED, job_output := out\<rparr>)"

text \<open>
  \<open>complete\<close> reads the job, rejects with "not found" when there is none, and otherwise
  puts the updated job and calls \<open>onCompleted\<close> when the new status is \<open>COMPLETED\<close> or
  \<open>FAILED\<close>.
\<close>

definition complete :: "string \<Rightarrow> jsval \<Rightarrow> JobError option \<Rightarrow> 'i IndexedDbJobQueue
    \<Rightarrow> unit promise \<times> 'i IndexedDbJobQueue" where
  "complete k out err q =
     (case store_get k (jobs q) of
        None \<Rightarrow> (Rejected (NotFound k), q)
      | Some job \<Rightarrow>
          (let job' = complete_update out err job
           in case store_put job' (jobs q) of
                Inl e \<Rightarrow> (Unsettled, q)
              | Inr st \<Rightarrow>
                  (Resolved (),
                   q\<lparr>jobs := st,
                     calls := calls q @
                       (if status job' = COMPLETED \<or> status job' = FAILED
                        then [OnCompleted (job_id job') (status job') out err] else [])\<rparr>)))"

text \<open>
  \<open>abort\<close> reads the job, rejects with "not found" when there is none, and otherwise sets
  the status to \<open>ABORTING\<close>, puts the job and calls \<open>abortJob\<close>.
\<close>

definition abort :: "string \<Rightarrow> 'i IndexedDbJobQueue \<Rightarrow> unit promise \<times> 'i IndexedDbJobQueue" where
  "abort jobId q =
     (case store_get jobId (jobs q) of
        None \<Rightarrow> (Rejected (NotFound jobId), q)
      | Some job \<Rightarrow>
          (case store_put (job\<lparr>status := ABORTING\<rparr>) (jobs q) of
             Inl e \<Rightarrow> (Unsettled, q)
           | Inr st \<Rightarrow> (Resolved (), q\<lparr>jobs := st, calls := calls q @ [AbortJob jobId]\<rparr>)))"

definition getJobsByRunId :: "string \<Rightarrow> 'i IndexedDbJobQueue \<Rightarrow> 'i Job list promise" where
  "getJobsByRunId r q = Resolved (index_getAll jobRunId_index (only (KString r)) None (jobs q))"

subsection \<open>outputForInput\<close>

text \<open>
  JavaScript's truthiness and string conversion on the values of \<open>jsval\<close>. \<open>JSON.parse\<close>
  converts its argument to a string and parses that text; the parser of JSON text is the
  language's own, and is a parameter (\<open>None\<close> when it throws a \<open>SyntaxError\<close>).
\<close>

fun truthy :: "jsval \<Rightarrow> bool" where
  "truthy JNull = False"
| "truthy (JBool b) = b"
| "truthy (JStr s) = (s \<noteq> [])"
| "truthy (JObj ps) = True"

fun ToString :: "jsval \<Rightarrow> string" where
  "ToString JNull = ''null''"
| "ToString (JBool b) = (if b then ''true'' else ''false'')"
| "ToString (JStr s) = s"
| "ToString (JObj ps) = ''[object Object]''"

definition JSON_parse :: "(string \<Rightarrow> jsval option) \<Rightarrow> jsval \<Rightarrow> jsval option" where
  "JSON_parse json_text v = json_text (ToString v)"

text \<open>
  \<open>outputForInput\<close> looks the key \<open>[taskType, fingerprint, COMPLETED]\<close> up in the index
  \<open>taskType_fingerprint_status\<close>. For a record with a truthy output it resolves with
  \<open>JSON.parse\<close> of the output; the parse runs inside the success handler, so when it
  throws the promise is never settled. In every other case it resolves with \<open>null\<close>.
\<close>

definition outputForInput :: "('i \<Rightarrow> string) \<Rightarrow> (string \<Rightarrow> jsval option) \<Rightarrow> string \<Rightarrow> 'i
    \<Rightarrow> 'i IndexedDbJobQueue \<Rightarrow> jsval promise" where
  "outputForInput makeFingerprint json_text tt inp q =
     (let fp = makeFingerprint inp;
          queryKey = KArray [KString tt, KString fp, status_key COMPLETED]
      in case index_first taskType_fingerprint_status_index (only queryKey) (jobs q) of
           Some result \<Rightarrow>
             (if truthy (job_output (snd result))
              then (case JSON_parse json_text (job_output (snd result)) of
                      Some v \<Rightarrow> Resolved v
                    | None \<Rightarrow> Unsettled)
              else Resolved JNull)
         | None \<Rightarrow> Resolved JNull)"

subsection \<open>Sequences of operations\<close>

datatype 'i operation =
    Add "'i Job" string string
  | Next
  | Complete string jsval "JobError option"
  | Abort string

fun step :: "('i \<Rightarrow> string) \<Rightarrow> 'i IndexedDbJobQueue \<Rightarrow> 'i operation \<Rightarrow> 'i IndexedDbJobQueue" where
  "step mf q (Add job n1 n2) = snd (add mf n1 n2 job q)"
| "step mf q Next = snd (next_job q)"
| "step mf q (Complete k out err) = snd (complete k out err q)"
| "step mf q (Abort k) = snd (abort k q)"

definition run :: "('i \<Rightarrow> string) \<Rightarrow> 'i IndexedDbJobQueue \<Rightarrow> 'i operation list \<Rightarrow> 'i IndexedDbJobQueue" where
  "run mf q ops = foldl (step mf) q ops"

definition empty_queue :: "string \<Rightarrow> 'i IndexedDbJobQueue" where
  "empty_queue name = \<lparr>queue = name, jobs = [], calls = []\<rparr>"

section \<open>Example jobs and queues\<close>

text \<open>
  The jobs of the test suite: \<open>new_job\<close> is a job as a producer submits it, \<open>PENDING\<close>,
  without \<open>id\<close>, run id or fingerprint; \<open>stored_job\<close> is such a job once it is stored
  under an \<open>id\<close>.
\<close>

definition new_job :: "string \<Rightarrow> jsval \<Rightarrow> jsval Job" where
  "new_job tt inp =
     \<lparr>job_id = None, jobRunId = None, queueName = None, taskType = tt, input = inp,
      fingerprint = None, status = PENDING, job_output = JNull, error = None,
      retries = number 0, maxRetries = number 10, runAfter = 0\<rparr>"

definition input1 :: jsval where
  "input1 = JObj [(''data'', JStr ''input1'')]"

definition input2 :: jsval where
  "input2 = JObj [(''data'', JStr ''input2'')]"

definition success :: jsval where
  "success = JObj [(''result'', JStr ''success'')]"

text \<open>
  A stand-in for \<open>makeFingerprint\<close> on the example inputs: the text of the \<open>data\<close>
  property.
\<close>

fun example_fingerprint :: "jsval \<Rightarrow> string" where
  "example_fingerprint (JObj [(k, JStr s)]) = s"
| "example_fingerprint v = ToString v"

definition stored_job :: "string \<Rightarrow> string \<Rightarrow> jsval \<Rightarrow> jsval Job" where
  "stored_job k tt inp =
     (new_job tt inp)\<lparr>job_id := Some k, jobRunId := Some ''run'', queueName := Some ''q'',
                      fingerprint := Some (example_fingerprint inp)\<rparr>"

text \<open>
  A queue that holds two stored jobs: \<open>A\<close>, with ten retries allowed, and \<open>B\<close>, with one.
\<close>

definition example_queue :: "jsval IndexedDbJobQueue" where
  "example_queue =
     \<lparr>queue = ''q'',
      jobs = [stored_job ''A'' ''task1'' input1,
              (stored_job ''B'' ''task2'' input2)\<lparr>maxRetries := number 1\<rparr>],
      calls = []\<rparr>"

text \<open>A parser that accepts the JSON literals and rejects every other text.\<close>

definition json_literals :: "string \<Rightarrow> jsval option" where
  "json_literals t =
     (if t = ''null'' then Some JNull
      else if t = ''true'' then Some (JBool True)
      else if t = ''false'' then Some (JBool False)
      else None)"

section \<open>Facts about numbers\<close>

lemma ulp_small: "a < 9007199254740992 \<Longrightarrow> ulp a = 1"
  by (simp add: ulp.simps)

lemma ulp_big: "\<not> a < 9007199254740992 \<Longrightarrow> ulp a = 2 * ulp (a div 2)"
  by (simp add: ulp.simps[of a])

lemma ulp_pos: "0 < ulp a"
  by (induction a rule: ulp.induct) (simp add: ulp.simps)

lemma ulp_upper: "a < 9007199254740992 * ulp a"
proof (induction a rule: ulp.induct)
  case (1 a)
  show ?case
  proof (cases "a < 9007199254740992")
    case True
    then show ?thesis by (simp add: ulp_small)
  next
    case False
    from 1[OF False] have "a div 2 < 9007199254740992 * ulp (a div 2)" .
    then have "a < 9007199254740992 * (2 * ulp (a div 2))" by linarith
    then show ?thesis by (simp add: ulp_big[OF False])
  qed
qed

lemma ulp_lower: "\<not> a < 9007199254740992 \<Longrightarrow> 4503599627370496 * ulp a \<le> a"
proof (induction a rule: ulp.induct)
  case (1 a)
  note big = 1(2)
  show ?case
  proof (cases "a div 2 < 9007199254740992")
    case True
    then have "ulp a = 2" using big by (simp add: ulp_big ulp_small)
    with big show ?thesis by simp
  next
    case False
    from 1(1)[OF big False] have "4503599627370496 * ulp (a div 2) \<le> a div 2" .
    then have "4503599627370496 * (2 * ulp (a div 2)) \<le> a" by linarith
    then show ?thesis by (simp add: ulp_big[OF big])
  qed
qed

lemma ulp_pow: "\<exists>e. ulp a = 2 ^ e"
proof (induction a rule: ulp.induct)
  case (1 a)
  show ?case
  proof (cases "a < 9007199254740992")
    case True
    then have "ulp a = 2 ^ 0" by (simp add: ulp_small)
    then show ?thesis by blast
  next
    case False
    from 1[OF False] obtain e where "ulp (a div 2) = 2 ^ e" by blast
    then have "ulp a = 2 ^ Suc e" by (simp add: ulp_big[OF False])
    then show ?thesis by blast
  qed
qed

lemma ulp_range:
  "4503599627370496 * 2 ^ e \<le> x \<Longrightarrow> x < 9007199254740992 * 2 ^ e \<Longrightarrow> ulp x = 2 ^ e"
proof (induction e arbitrary: x)
  case 0
  then show ?case by (simp add: ulp_small)
next
  case (Suc e)
  have "(9007199254740992::nat) \<le> 9007199254740992 * 2 ^ e" by simp
  moreover from Suc.prems(1) have "9007199254740992 * 2 ^ e \<le> x" by simp
  ultimately have big: "\<not> x < 9007199254740992" by linarith
  from Suc.prems have "4503599627370496 * 2 ^ e \<le> x div 2" "x div 2 < 9007199254740992 * 2 ^ e"
    by auto
  from Suc.IH[OF this] show ?case by (simp add: ulp_big[OF big])
qed

lemma ulp_mono_dvd: "a \<le> b \<Longrightarrow> ulp a dvd ulp b"
proof (induction a arbitrary: b rule: ulp.induct)
  case (1 a)
  show ?case
  proof (cases "a < 9007199254740992")
    case True
    then show ?thesis by (simp add: ulp_small)
  next
    case False
    with 1(2) have bigb: "\<not> b < 9007199254740992" by simp
    from 1(2) have "a div 2 \<le> b div 2" by simp
    from 1(1)[OF False this] show ?thesis
      by (simp add: ulp_big[OF False] ulp_big[OF bigb])
  qed
qed

lemma round_nat_representable_id: "representable b \<Longrightarrow> round_nat b = b"
  using ulp_pos[of b] div_mult_mod_eq[of b "ulp b"]
  by (simp add: round_nat_def representable_def Let_def)

lemma round_nat_cases:
  "round_nat a = (a div ulp a) * ulp a \<or> round_nat a = (a div ulp a + 1) * ulp a"
  by (simp add: round_nat_def Let_def)

lemma round_nat_exact: "a mod ulp a = 0 \<Longrightarrow> round_nat a = a"
  using ulp_pos[of a] div_mult_mod_eq[of a "ulp a"] by (simp add: round_nat_def Let_def)

lemma down_le_round: "(a div ulp a) * ulp a \<le> round_nat a"
  using round_nat_cases[of a] by auto

lemma representable_round: "representable (round_nat a)"
proof (cases "a < 9007199254740992")
  case True
  then have "round_nat a = a" by (simp add: round_nat_def ulp_small)
  with True show ?thesis by (simp add: representable_def ulp_small)
next
  case False
  obtain e where e: "ulp a = 2 ^ e" using ulp_pow by blast
  let ?q = "a div 2 ^ e"
  have lo: "4503599627370496 * 2 ^ e \<le> a" using ulp_lower[OF False] e by simp
  have hi: "a < 9007199254740992 * 2 ^ e" using ulp_upper[of a] e by simp
  have qlo: "4503599627370496 \<le> ?q"
    using lo by (simp add: less_eq_div_iff_mult_less_eq)
  have qhi: "?q < 9007199254740992"
    using hi by (simp add: less_mult_imp_div_less)
  have rep: "representable (k * 2 ^ e)" if "4503599627370496 \<le> k" "k \<le> 9007199254740992" for k
  proof (cases "k = 9007199254740992")
    case True
    have "ulp (k * 2 ^ e) = 2 ^ Suc e"
      by (rule ulp_range) (simp_all add: True)
    then show ?thesis by (simp add: representable_def True)
  next
    case False
    with that have "k < 9007199254740992" by simp
    with that have "ulp (k * 2 ^ e) = 2 ^ e"
      by (intro ulp_range) simp_all
    then show ?thesis by (simp add: representable_def)
  qed
  from round_nat_cases[of a] show ?thesis
  proof
    assume "round_nat a = (a div ulp a) * ulp a"
    with rep[of ?q] qlo qhi e show ?thesis by simp
  next
    assume "round_nat a = (a div ulp a + 1) * ulp a"
    with rep[of "?q + 1"] qlo qhi e show ?thesis by simp
  qed
qed

lemma representable_le_down:
  assumes "representable b" "b \<le> a"
  shows "b \<le> (a div ulp a) * ulp a"
proof (cases "ulp b = ulp a")
  case True
  with assms(1) have "ulp a dvd b" by (simp add: representable_def mod_eq_0_iff_dvd)
  then obtain c where c: "b = c * ulp a" by (auto simp: dvd_def mult.commute)
  with assms(2) have "c \<le> a div ulp a"
    using ulp_pos[of a] by (simp add: less_eq_div_iff_mult_less_eq)
  with c show ?thesis by simp
next
  case False
  from ulp_mono_dvd[OF assms(2)] obtain c where c: "ulp a = ulp b * c" by (auto simp: dvd_def)
  with False ulp_pos[of a] have c2: "2 \<le> c" by (cases c; cases "c - 1") auto
  have biga: "\<not> a < 9007199254740992"
  proof
    assume "a < 9007199254740992"
    then have "ulp a = 1" by (rule ulp_small)
    with c have "ulp b = 1" by simp
    with \<open>ulp a = 1\<close> False show False by simp
  qed
  have "b < 9007199254740992 * ulp b" by (rule ulp_upper)
  also have "\<dots> = 4503599627370496 * (ulp b * 2)" by simp
  also have "\<dots> \<le> 4503599627370496 * ulp a" using c c2 by simp
  finally have "b < 4503599627370496 * ulp a" .
  moreover have "4503599627370496 \<le> a div ulp a"
    using ulp_lower[OF biga] ulp_pos[of a] by (simp add: less_eq_div_iff_mult_less_eq)
  then have "4503599627370496 * ulp a \<le> (a div ulp a) * ulp a" by (rule mult_le_mono1)
  ultimately show ?thesis by linarith
qed

lemma round_le_representable:
  assumes "representable b" "a \<le> b"
  shows "round_nat a \<le> b"
proof (cases "a mod ulp a = 0")
  case True
  then show ?thesis using assms(2) by (simp add: round_nat_exact)
next
  case False
  from ulp_mono_dvd[OF assms(2)] assms(1) have "ulp a dvd b"
    by (meson dvd_trans mod_eq_0_iff_dvd representable_def)
  then obtain c where c: "b = c * ulp a" by (auto simp: dvd_def mult.commute)
  have "(a div ulp a) * ulp a < a"
    using False by (metis div_mult_mod_eq less_add_same_cancel1 neq0_conv)
  with assms(2) c have "(a div ulp a) * ulp a < c * ulp a" by linarith
  then have "a div ulp a < c" by (simp only: mult_less_cancel2)
  then have "a div ulp a + 1 \<le> c" by simp
  then have up: "(a div ulp a + 1) * ulp a \<le> c * ulp a" by (rule mult_le_mono1)
  have "(a div ulp a) * ulp a \<le> (a div ulp a + 1) * ulp a" by simp
  with up round_nat_cases[of a] have "round_nat a \<le> c * ulp a" by presburger
  with c show ?thesis by simp
qed


lemma round_nat_idem: "round_nat (round_nat a) = round_nat a"
  by (simp add: representable_round round_nat_representable_id)

lemma round_nat_0: "round_nat 0 = 0"
  by (simp add: round_nat_def ulp_small)

lemma round_double_idem: "round_double (round_double x) = round_double x"
  by (auto simp: round_double_def round_nat_idem round_nat_0)

lemma int_of_number: "int_of (number n) = round_double n"
  by (simp add: number_def Abs_jsnumber_inverse round_double_idem)

lemma round_int_of: "round_double (int_of x) = int_of x"
  using int_of[of x] by simp

lemma round_nat_small: "a < 9007199254740992 \<Longrightarrow> round_nat a = a"
  by (simp add: round_nat_def ulp_small)

lemma round_nat_2_53: "round_nat 9007199254740992 = 9007199254740992"
  by (simp add: round_nat_def ulp_big ulp_small)

lemma round_nat_2_53_1: "round_nat 9007199254740993 = 9007199254740992"
  by (simp add: round_nat_def ulp_big ulp_small)

lemma round_double_exact:
  "- 9007199254740992 \<le> x \<Longrightarrow> x \<le> 9007199254740992 \<Longrightarrow> round_double x = x"
proof -
  assume b: "- 9007199254740992 \<le> x" "x \<le> 9007199254740992"
  have n: "round_nat a = a" if "a \<le> 9007199254740992" for a
  proof (cases "a = 9007199254740992")
    case True
    then show ?thesis by (simp add: round_nat_2_53)
  next
    case False
    with that show ?thesis by (simp add: round_nat_small)
  qed
  show ?thesis
  proof (cases "x < 0")
    case True
    with b have "nat (- x) \<le> 9007199254740992" by simp
    from n[OF this] True show ?thesis by (simp add: round_double_def)
  next
    case False
    with b have "nat x \<le> 9007199254740992" by simp
    from n[OF this] False show ?thesis by (simp add: round_double_def)
  qed
qed

lemma round_double_2_53_1: "round_double 9007199254740993 = 9007199254740992"
  by (simp add: round_double_def round_nat_2_53_1)

lemma number_representable: "round_double m = m \<Longrightarrow> representable (nat \<bar>m\<bar>)"
proof -
  assume m: "round_double m = m"
  show ?thesis
  proof (cases "m < 0")
    case True
    with m have "int (round_nat (nat (- m))) = - m" by (simp add: round_double_def)
    then have "round_nat (nat (- m)) = nat (- m)" by simp
    with representable_round[of "nat (- m)"] True show ?thesis by simp
  next
    case False
    with m have "int (round_nat (nat m)) = m" by (simp add: round_double_def)
    then have "round_nat (nat m) = nat m" by simp
    with representable_round[of "nat m"] False show ?thesis by simp
  qed
qed

lemma round_double_le:
  assumes m: "round_double m = m" and le: "x \<le> m"
  shows "round_double x \<le> m"
proof (cases "x < 0")
  case False
  with le have m0: "0 \<le> m" by simp
  from number_representable[OF m] m0 have "representable (nat m)" by simp
  moreover from le False have "nat x \<le> nat m" by simp
  ultimately have "round_nat (nat x) \<le> nat m" by (rule round_le_representable)
  with False m0 show ?thesis by (simp add: round_double_def)
next
  case True
  show ?thesis
  proof (cases "m < 0")
    case False
    with True show ?thesis by (simp add: round_double_def)
  next
    case mneg: True
    from number_representable[OF m] mneg have "representable (nat (- m))" by simp
    moreover from le mneg have "nat (- m) \<le> nat (- x)" by simp
    ultimately have "nat (- m) \<le> (nat (- x) div ulp (nat (- x))) * ulp (nat (- x))"
      by (rule representable_le_down)
    also have "\<dots> \<le> round_nat (nat (- x))" by (rule down_le_round)
    finally show ?thesis using True mneg by (simp add: round_double_def)
  qed
qed

lemma int_of_plus_one: "int_of (plus_one x) = round_double (int_of x + 1)"
  by (simp add: plus_one_def int_of_number)

lemma int_of_js_or_zero: "int_of (js_or_zero x) = int_of x"
  by (simp add: js_or_zero_def int_of_number round_double_exact)

lemma int_of_number_exact:
  "- 9007199254740992 \<le> n \<Longrightarrow> n \<le> 9007199254740992 \<Longrightarrow> int_of (number n) = n"
  by (simp add: int_of_number round_double_exact)

lemma plus_one_exact:
  "- 9007199254740992 \<le> int_of x \<Longrightarrow> int_of x < 9007199254740992
   \<Longrightarrow> int_of (plus_one x) = int_of x + 1"
  by (simp add: int_of_plus_one round_double_exact)

lemma plus_one_le: "x < m \<Longrightarrow> plus_one x \<le> m"
  using round_double_le[OF round_int_of[of m], of "int_of x + 1"]
  by (simp add: less_jsnumber_def less_eq_jsnumber_def int_of_plus_one)

lemma plus_one_2_53: "plus_one (number 9007199254740992) = number 9007199254740992"
  by (simp add: plus_one_def int_of_number_exact)
     (simp add: number_def round_double_2_53_1 round_double_exact)

lemma number_eqI: "int_of x = n \<Longrightarrow> - 9007199254740992 \<le> n \<Longrightarrow> n \<le> 9007199254740992 \<Longrightarrow> x = number n"
  by (metis int_of_inject int_of_number_exact)

lemma number_eq_iff:
  "- 9007199254740992 \<le> a \<Longrightarrow> a \<le> 9007199254740992 \<Longrightarrow>
   - 9007199254740992 \<le> b \<Longrightarrow> b \<le> 9007199254740992 \<Longrightarrow> number a = number b \<longleftrightarrow> a = b"
  by (metis int_of_number_exact)

lemma plus_one_js_or_zero: "plus_one (js_or_zero x) = plus_one x"
  by (simp add: plus_one_def int_of_js_or_zero)

lemmas number_simps = less_eq_jsnumber_def less_jsnumber_def int_of_plus_one int_of_js_or_zero
  int_of_number_exact round_double_exact round_double_2_53_1 number_eq_iff

section \<open>Facts about the object store and the indexes\<close>

lemma store_get_Some_id: "store_get k st = Some j \<Longrightarrow> job_id j = Some k"
  unfolding store_get_def by (induction st) (auto split: if_splits)

lemma store_get_insert_same:
  "job_id j = Some k \<Longrightarrow> store_get k st = None \<Longrightarrow> store_get k (insert_record j st) = Some j"
  unfolding store_get_def by (induction st) auto

lemma store_get_insert_other:
  "job_id j \<noteq> Some k \<Longrightarrow> store_get k (insert_record j st) = store_get k st"
  unfolding store_get_def by (induction st) auto

lemma store_get_replace_same:
  "job_id j = Some k \<Longrightarrow> store_get k st = Some x
   \<Longrightarrow> store_get k (map (\<lambda>y. if job_id y = Some k then j else y) st) = Some j"
  unfolding store_get_def by (induction st) (auto split: if_splits)

lemma store_get_replace_other:
  "job_id j = Some k \<Longrightarrow> k' \<noteq> k
   \<Longrightarrow> store_get k' (map (\<lambda>y. if job_id y = Some k then j else y) st) = store_get k' st"
  unfolding store_get_def by (induction st) auto

lemma store_put_Inr: "job_id j = Some k \<Longrightarrow> \<exists>st'. store_put j st = Inr st'"
  unfolding store_put_def by (auto split: option.splits)

lemma store_put_get_same:
  "job_id j = Some k \<Longrightarrow> store_put j st = Inr st' \<Longrightarrow> store_get k st' = Some j"
  unfolding store_put_def
  by (auto split: option.splits simp: store_get_insert_same store_get_replace_same)

lemma store_put_get_other:
  "job_id j = Some k \<Longrightarrow> k' \<noteq> k \<Longrightarrow> store_put j st = Inr st'
   \<Longrightarrow> store_get k' st' = store_get k' st"
  unfolding store_put_def
  by (auto split: option.splits simp: store_get_insert_other store_get_replace_other)

lemma set_index_insert: "set (index_insert r xs) = insert r (set xs)"
  by (induction xs) auto

lemma set_index_records: "set (index_records ix st) = set (index_entries ix st)"
proof -
  have "set (foldr index_insert es []) = set es" for es :: "(idb_key \<times> 'a Job) list"
    by (induction es) (auto simp: set_index_insert)
  then show ?thesis by (simp add: index_records_def)
qed

text \<open>
  Every key of the index \<open>status_runAfter\<close> is an array, and no array is in a range whose
  two bounds are one string: the range \<open>only\<close> of a status holds no record of this index.
\<close>

lemma index_entries_status_runAfter:
  "e \<in> set (index_entries status_runAfter_index st) \<Longrightarrow> \<exists>xs. fst e = KArray xs"
  by (induction st) auto

lemma not_in_range_only_string: "\<not> in_range (only (KString s)) (KArray xs)"
  by (simp add: in_range_def only_def)

lemma index_first_status_runAfter_none:
  "index_first status_runAfter_index (only (KString s)) st = None"
proof -
  have "\<not> in_range (only (KString s)) (fst e)"
    if "e \<in> set (index_records status_runAfter_index st)" for e
  proof -
    from that have "e \<in> set (index_entries status_runAfter_index st)"
      by (simp add: set_index_records)
    then obtain xs where "fst e = KArray xs"
      using index_entries_status_runAfter by blast
    then show ?thesis by (simp add: not_in_range_only_string)
  qed
  then show ?thesis
    unfolding index_first_def find_None_iff by blast
qed

lemma next_job_none: "next_job q = (Resolved None, q)"
  by (simp add: next_job_def index_first_status_runAfter_none)

lemma complete_found:
  assumes "store_get k (jobs q) = Some j"
  shows "fst (complete k out err q) = Resolved ()"
    and "store_get k (jobs (snd (complete k out err q))) = Some (complete_update out err j)"
    and "k' \<noteq> k \<Longrightarrow> store_get k' (jobs (snd (complete k out err q))) = store_get k' (jobs q)"
proof -
  have id: "job_id (complete_update out err j) = Some k"
    using store_get_Some_id[OF assms]
    by (auto simp: complete_update_def Let_def split: option.splits JobError.splits)
  obtain st' where st': "store_put (complete_update out err j) (jobs q) = Inr st'"
    using store_put_Inr[OF id] by blast
  show "fst (complete k out err q) = Resolved ()"
    by (simp add: complete_def assms Let_def st')
  show "store_get k (jobs (snd (complete k out err q))) = Some (complete_update out err j)"
    using store_put_get_same[OF id st'] by (simp add: complete_def assms Let_def st')
  show "store_get k' (jobs (snd (complete k out err q))) = store_get k' (jobs q)" if "k' \<noteq> k"
    using store_put_get_other[OF id that st'] by (simp add: complete_def assms Let_def st')
qed

lemma abort_found:
  assumes "store_get k (jobs q) = Some j"
  shows "fst (abort k q) = Resolved ()"
    and "store_get k (jobs (snd (abort k q))) = Some (j\<lparr>status := ABORTING\<rparr>)"
    and "k' \<noteq> k \<Longrightarrow> store_get k' (jobs (snd (abort k q))) = store_get k' (jobs q)"
proof -
  have id: "job_id (j\<lparr>status := ABORTING\<rparr>) = Some k"
    using store_get_Some_id[OF assms] by simp
  obtain st' where st': "store_put (j\<lparr>status := ABORTING\<rparr>) (jobs q) = Inr st'"
    using store_put_Inr[OF id] by blast
  show "fst (abort k q) = Resolved ()"
    by (simp add: abort_def assms st')
  show "store_get k (jobs (snd (abort k q))) = Some (j\<lparr>status := ABORTING\<rparr>)"
    using store_put_get_same[OF id st'] by (simp add: abort_def assms st')
  show "store_get k' (jobs (snd (abort k q))) = store_get k' (jobs q)" if "k' \<noteq> k"
    using store_put_get_other[OF id that st'] by (simp add: abort_def assms st')
qed

lemma example_queue_A:
  "store_get ''A'' (jobs example_queue) = Some (stored_job ''A'' ''task1'' input1)"
  by (simp add: example_queue_def store_get_def stored_job_def)

lemma example_queue_B:
  "store_get ''B'' (jobs example_queue) = Some ((stored_job ''B'' ''task2'' input2)\<lparr>maxRetries := number 1\<rparr>)"
  by (simp add: example_queue_def store_get_def stored_job_def)

lemma add_result:
  assumes k: "k = (case job_id job of Some i \<Rightarrow> i | None \<Rightarrow> na)"
    and job': "job' = job\<lparr>job_id := Some k,
      jobRunId := Some (case jobRunId job of Some i \<Rightarrow> i | None \<Rightarrow> nb),
      queueName := Some (queue q), fingerprint := Some (mf (input job))\<rparr>"
  shows "store_get k (jobs q) \<noteq> None \<Longrightarrow>
           add mf na nb job q = (Rejected (TransactionError None), q)"
    and "store_get k (jobs q) = None \<Longrightarrow>
           add mf na nb job q = (Resolved k, q\<lparr>jobs := insert_record job' (jobs q)\<rparr>)"
    and "store_get k (jobs q) = None \<Longrightarrow>
           store_get k (jobs (snd (add mf na nb job q))) = Some job'"
    and "store_get k (jobs q) = None \<Longrightarrow> k' \<noteq> k \<Longrightarrow>
           store_get k' (jobs (snd (add mf na nb job q))) = store_get k' (jobs q)"
proof -
  have id: "job_id job' = Some k" by (simp add: job')
  show "add mf na nb job q = (Rejected (TransactionError None), q)"
    if "store_get k (jobs q) \<noteq> None"
    using that k by (auto simp: add_def store_add_def Let_def split: option.splits)
  show eq: "add mf na nb job q = (Resolved k, q\<lparr>jobs := insert_record job' (jobs q)\<rparr>)"
    if "store_get k (jobs q) = None"
    using that k by (auto simp: add_def store_add_def Let_def job' split: option.splits)
  show "store_get k (jobs (snd (add mf na nb job q))) = Some job'"
    if "store_get k (jobs q) = None"
    using eq[OF that] store_get_insert_same[OF id that] by simp
  show "store_get k' (jobs (snd (add mf na nb job q))) = store_get k' (jobs q)"
    if "store_get k (jobs q) = None" "k' \<noteq> k"
    using eq[OF that(1)] store_get_insert_other[of job' k' "jobs q"] id that(2) by simp
qed

lemma compare_strings_same: "compare_strings s s = 0"
  by (induction s) auto

lemma compare_arrays_same:
  "(\<And>x. x \<in> set ks \<Longrightarrow> compare_keys x x = 0) \<Longrightarrow> compare_arrays ks ks = 0"
  by (induction ks) auto

lemma compare_keys_same: "compare_keys k k = 0"
  by (induction k) (auto simp: compare_strings_same compare_arrays_same)

lemma in_range_only_same: "in_range (only k) k"
  by (simp add: in_range_def only_def compare_keys_same)

lemmas run_simps = run_def empty_queue_def add_def store_add_def store_put_def store_get_def
  new_job_def complete_def complete_update_def abort_def next_job_none Let_def

lemma example_queue_C: "store_get ''C'' (jobs example_queue) = None"
  by (simp add: example_queue_def store_get_def stored_job_def)

section \<open>Outcomes of complete\<close>







section \<open>Absent ids\<close>

text \<open>
  C10. For an id that is absent from the store, \<open>get(id)\<close> resolves to undefined, and
  \<open>complete(id, ...)\<close> and \<open>abort(id)\<close> are rejected with a not-found error and leave the
  queue as it was.
\<close>

theorem absent_id:
  "store_get k (jobs q) = None \<Longrightarrow>
   get k q = Resolved None \<and>
   complete k out err q = (Rejected (NotFound k), q) \<and>
   abort k q = (Rejected (NotFound k), q)"
  by (simp add: get_def complete_def abort_def)

theorem absent_id_witness:
  "store_get ''C'' (jobs example_queue) = None \<and>
   get ''C'' example_queue = Resolved None \<and>
   complete ''C'' success None example_queue = (Rejected (NotFound ''C''), example_queue) \<and>
   abort ''C'' example_queue = (Rejected (NotFound ''C''), example_queue)"
  using absent_id[OF example_queue_C] example_queue_C by simp

section \<open>add\<close>

text \<open>
  C8, evaluated. When the job's \<open>id\<close> (the given one, or the generated one when none is
  given) already exists in the store, the promise of \<open>add(job)\<close> is rejected and the
  queue, the stored job with that \<open>id\<close> included, is unchanged; but the reason of the
  rejection is \<open>tx.error\<close> as the handler reads it, which is \<open>null\<close> and not the store's
  duplicate-key error. When the \<open>id\<close> is fresh, \<open>add\<close> resolves with the \<open>id\<close>, the store
  holds a job under it, and every other record is as before.
\<close>

theorem add_duplicate_or_fresh:
  "k = (case job_id job of Some i \<Rightarrow> i | None \<Rightarrow> na) \<Longrightarrow>
   (store_get k (jobs q) \<noteq> None \<longrightarrow>
      add mf na nb job q = (Rejected (TransactionError None), q)) \<and>
   (store_get k (jobs q) = None \<longrightarrow>
      fst (add mf na nb job q) = Resolved k \<and>
      store_get k (jobs (snd (add mf na nb job q))) \<noteq> None \<and>
      (\<forall>k'. k' \<noteq> k \<longrightarrow>
         store_get k' (jobs (snd (add mf na nb job q))) = store_get k' (jobs q)))"
  using add_result[where k=k and job=job and na=na and nb=nb and q=q and mf=mf, OF _ refl]
  by simp

text \<open>
  In the example queue, a job that comes with the \<open>id\<close> \<open>A\<close> is refused with the reason
  \<open>null\<close>, and a job without \<open>id\<close> for which \<open>C\<close> is generated is stored.
\<close>

theorem add_duplicate_or_fresh_witness:
  "add example_fingerprint ''N'' ''r'' ((new_job ''task1'' input1)\<lparr>job_id := Some ''A''\<rparr>)
     example_queue = (Rejected (TransactionError None), example_queue) \<and>
   fst (add example_fingerprint ''C'' ''r'' (new_job ''task1'' input1) example_queue) =
     Resolved ''C'' \<and>
   store_get ''C'' (jobs (snd (add example_fingerprint ''C'' ''r'' (new_job ''task1'' input1)
     example_queue))) \<noteq> None \<and>
   store_get ''A'' (jobs (snd (add example_fingerprint ''C'' ''r'' (new_job ''task1'' input1)
     example_queue))) = Some (stored_job ''A'' ''task1'' input1)"
  using add_duplicate_or_fresh[where k="''A''" and na="''N''" and nb="''r''"
          and job="(new_job ''task1'' input1)\<lparr>job_id := Some ''A''\<rparr>"
          and q=example_queue and mf=example_fingerprint]
        add_duplicate_or_fresh[where k="''C''" and na="''C''" and nb="''r''"
          and job="new_job ''task1'' input1" and q=example_queue and mf=example_fingerprint]
        example_queue_A example_queue_C
  by (simp add: new_job_def)

text \<open>
  C4, as the counterexample: \<open>add\<close> never sets the status. A job that is passed with the
  status \<open>COMPLETED\<close> is stored with the status \<open>COMPLETED\<close>.
\<close>

theorem add_keeps_given_status:
  "fst (add example_fingerprint ''A'' ''r1''
     ((new_job ''task1'' input1)\<lparr>status := COMPLETED\<rparr>) (empty_queue ''q'')) = Resolved ''A'' \<and>
   map_option status (store_get ''A'' (jobs (snd (add example_fingerprint ''A'' ''r1''
     ((new_job ''task1'' input1)\<lparr>status := COMPLETED\<rparr>) (empty_queue ''q''))))) = Some COMPLETED \<and>
   map_option status (store_get ''A'' (jobs (snd (add example_fingerprint ''A'' ''r1''
     ((new_job ''task1'' input1)\<lparr>status := COMPLETED\<rparr>) (empty_queue ''q''))))) \<noteq> Some PENDING"
  by (simp add: run_simps)

text \<open>
  C4, amended. When \<open>add(job)\<close> resolves with \<open>k\<close>, the store holds under \<open>k\<close> a job with
  the \<open>id\<close> \<open>k\<close> (the given \<open>id\<close>, or the generated one when none was given), with the
  status the job was passed with, and with the fingerprint of its input.
\<close>

theorem add_stores_job:
  "add mf na nb job q = (Resolved k, q') \<Longrightarrow>
   (\<exists>j'. store_get k (jobs q') = Some j' \<and> job_id j' = Some k \<and> status j' = status job \<and>
         fingerprint j' = Some (mf (input job)) \<and> input j' = input job) \<and>
   k = (case job_id job of Some i \<Rightarrow> i | None \<Rightarrow> na)"
proof -
  assume a: "add mf na nb job q = (Resolved k, q')"
  define k0 where "k0 = (case job_id job of Some i \<Rightarrow> i | None \<Rightarrow> na)"
  have fresh: "store_get k0 (jobs q) = None"
  proof (rule ccontr)
    assume "store_get k0 (jobs q) \<noteq> None"
    from add_result(1)[where mf=mf and nb=nb, OF k0_def refl this] a show False by simp
  qed
  from add_result(2)[where mf=mf and nb=nb, OF k0_def refl fresh] a have kk: "k = k0" by simp
  from add_result(3)[where mf=mf and nb=nb, OF k0_def refl fresh] a kk show ?thesis
    by (simp add: k0_def)
qed

theorem add_stores_job_witness:
  "fst (add example_fingerprint ''A'' ''r1'' (new_job ''task1'' input1) (empty_queue ''q'')) =
     Resolved ''A'' \<and>
   (\<exists>j'. store_get ''A'' (jobs (snd (add example_fingerprint ''A'' ''r1''
            (new_job ''task1'' input1) (empty_queue ''q'')))) = Some j' \<and>
         job_id j' = Some ''A'' \<and> status j' = PENDING \<and> fingerprint j' = Some ''input1'')"
proof -
  let ?r = "add example_fingerprint ''A'' ''r1'' (new_job ''task1'' input1) (empty_queue ''q'')"
  have f: "fst ?r = Resolved ''A''"
    by (simp add: run_simps)
  then have h: "?r = (Resolved ''A'', snd ?r)"
    by (metis prod.collapse)
  from add_stores_job[OF h] obtain j' where
    "store_get ''A'' (jobs (snd ?r)) = Some j'" "job_id j' = Some ''A''"
    "status j' = status (new_job ''task1'' input1)"
    "fingerprint j' = Some (example_fingerprint (input (new_job ''task1'' input1)))"
    by blast
  then have "store_get ''A'' (jobs (snd ?r)) = Some j' \<and> job_id j' = Some ''A'' \<and>
      status j' = PENDING \<and> fingerprint j' = Some ''input1''"
    by (simp add: new_job_def input1_def)
  with f show ?thesis by blast
qed

section \<open>next\<close>

text \<open>
  C1, evaluated on the scenario of the test suite: two jobs are added, first \<open>A\<close> and
  then \<open>B\<close>, with equal \<open>runAfter\<close>, and both are stored as \<open>PENDING\<close>. The cursor of
  \<open>next\<close> ranges over the index \<open>status_runAfter\<close>, whose keys are the arrays
  \<open>[status, runAfter]\<close>, with the range that holds the one string key of \<open>PENDING\<close>; no
  record is in that range. \<open>next\<close> resolves with undefined, and both jobs stay \<open>PENDING\<close>.
\<close>

theorem next_finds_no_pending_job:
  "map job_id (jobs (run mf (empty_queue ''q'')
      [Add (new_job ''task1'' input1) ''A'' ''r1'',
       Add (new_job ''task2'' input2) ''B'' ''r2''])) = [Some ''A'', Some ''B''] \<and>
   map status (jobs (run mf (empty_queue ''q'')
      [Add (new_job ''task1'' input1) ''A'' ''r1'',
       Add (new_job ''task2'' input2) ''B'' ''r2''])) = [PENDING, PENDING] \<and>
   fst (next_job (run mf (empty_queue ''q'')
      [Add (new_job ''task1'' input1) ''A'' ''r1'',
       Add (new_job ''task2'' input2) ''B'' ''r2''])) = Resolved None \<and>
   map status (jobs (snd (next_job (run mf (empty_queue ''q'')
      [Add (new_job ''task1'' input1) ''A'' ''r1'',
       Add (new_job ''task2'' input2) ''B'' ''r2''])))) = [PENDING, PENDING]"
  by (simp add: run_simps)



section \<open>outputForInput\<close>

text \<open>
  C5, evaluated on the scenario of the test suite: a job of type \<open>task1\<close> with the input
  \<open>{data: "input1"}\<close> is added and completed with the output \<open>{result: "success"}\<close>.
  \<open>complete\<close> stores the output as it is, and \<open>outputForInput\<close> hands the stored object
  to \<open>JSON.parse\<close>, which converts it to the text \<open>[object Object]\<close>. For every
  fingerprint function and every parser that rejects this text, the promise of
  \<open>outputForInput\<close> is never settled.
\<close>

theorem outputForInput_object_output:
  "json_text ''[object Object]'' = None \<Longrightarrow>
   outputForInput mf json_text ''task1'' input1
     (run mf (empty_queue ''q'')
        [Add (new_job ''task1'' input1) ''A'' ''r1'', Complete ''A'' success None]) = Unsettled"
  by (simp add: run_simps outputForInput_def index_first_def index_records_def
       in_range_only_same success_def JSON_parse_def)

theorem outputForInput_object_output_witness:
  "json_literals ''[object Object]'' = None \<and>
   map job_output (jobs (run example_fingerprint (empty_queue ''q'')
        [Add (new_job ''task1'' input1) ''A'' ''r1'', Complete ''A'' success None])) = [success] \<and>
   map status (jobs (run example_fingerprint (empty_queue ''q'')
        [Add (new_job ''task1'' input1) ''A'' ''r1'', Complete ''A'' success None])) = [COMPLETED] \<and>
   outputForInput example_fingerprint json_literals ''task1'' input1
     (run example_fingerprint (empty_queue ''q'')
        [Add (new_job ''task1'' input1) ''A'' ''r1'', Complete ''A'' success None]) = Unsettled"
proof -
  have rejects: "json_literals ''[object Object]'' = None"
    by (simp add: json_literals_def)
  have stored: "map job_output (jobs (run example_fingerprint (empty_queue ''q'')
        [Add (new_job ''task1'' input1) ''A'' ''r1'', Complete ''A'' success None])) = [success]
     \<and> map status (jobs (run example_fingerprint (empty_queue ''q'')
        [Add (new_job ''task1'' input1) ''A'' ''r1'', Complete ''A'' success None])) = [COMPLETED]"
    by (simp add: run_simps)
  from outputForInput_object_output[where json_text=json_literals and mf=example_fingerprint,
      OF rejects] rejects stored
  show ?thesis by simp
qed

section \<open>Status changes and the retry bound\<close>

text \<open>
  C6, as the counterexample: a job that is added and completed is \<open>COMPLETED\<close>, and
  \<open>abort\<close> then moves it to \<open>ABORTING\<close>; \<open>abort\<close> also moves a job that was only added,
  and is \<open>PENDING\<close>, to \<open>ABORTING\<close>.
\<close>

theorem abort_from_any_status:
  "map status (jobs (run example_fingerprint (empty_queue ''q'')
      [Add (new_job ''task1'' input1) ''A'' ''r1'', Complete ''A'' success None])) = [COMPLETED] \<and>
   map status (jobs (run example_fingerprint (empty_queue ''q'')
      [Add (new_job ''task1'' input1) ''A'' ''r1'', Complete ''A'' success None,
       Abort ''A''])) = [ABORTING] \<and>
   map status (jobs (run example_fingerprint (empty_queue ''q'')
      [Add (new_job ''task1'' input1) ''A'' ''r1''])) = [PENDING] \<and>
   map status (jobs (run example_fingerprint (empty_queue ''q'')
      [Add (new_job ''task1'' input1) ''A'' ''r1'', Abort ''A''])) = [ABORTING]"
  by (simp add: run_simps)

text \<open>
  C6, amended. For a stored job \<open>i\<close>: \<open>complete(k, output, error)\<close> leaves its status as
  it is when \<open>i\<close> is not \<open>k\<close>, and otherwise sets it, whatever it was, to \<open>COMPLETED\<close> when
  there is no error, to \<open>PENDING\<close> for a \<open>RetryableJobError\<close> whose incremented \<open>retries\<close>
  is below \<open>maxRetries\<close>, and to \<open>FAILED\<close> for every other error; \<open>abort(k)\<close> leaves it as
  it is when \<open>i\<close> is not \<open>k\<close>, and otherwise sets it, whatever it was, to \<open>ABORTING\<close>.
\<close>

theorem status_after_operation:
  "store_get i (jobs q) = Some j \<Longrightarrow>
   map_option status (store_get i (jobs (snd (complete k out err q)))) =
     Some (if i = k
           then (case err of
                   None \<Rightarrow> COMPLETED
                 | Some (RetryableJobError m d) \<Rightarrow>
                     if plus_one (retries j) \<ge> maxRetries j then FAILED else PENDING
                 | Some e \<Rightarrow> FAILED)
           else status j) \<and>
   map_option status (store_get i (jobs (snd (abort k q)))) =
     Some (if i = k then ABORTING else status j)"
proof -
  assume j: "store_get i (jobs q) = Some j"
  have c: "map_option status (store_get i (jobs (snd (complete k out err q)))) =
     Some (if i = k
           then (case err of
                   None \<Rightarrow> COMPLETED
                 | Some (RetryableJobError m d) \<Rightarrow>
                     if plus_one (retries j) \<ge> maxRetries j then FAILED else PENDING
                 | Some e \<Rightarrow> FAILED)
           else status j)"
  proof (cases "i = k")
    case True
    with complete_found(2)[OF j, of out err] show ?thesis
      by (auto simp: complete_update_def Let_def plus_one_js_or_zero
            split: option.splits JobError.splits)
  next
    case False
    show ?thesis
    proof (cases "store_get k (jobs q)")
      case None
      then show ?thesis using False j by (simp add: complete_def)
    next
      case (Some x)
      from complete_found(3)[OF Some False, of out err] False j show ?thesis by simp
    qed
  qed
  have a: "map_option status (store_get i (jobs (snd (abort k q)))) =
     Some (if i = k then ABORTING else status j)"
  proof (cases "i = k")
    case True
    with abort_found(2)[OF j] show ?thesis by simp
  next
    case False
    show ?thesis
    proof (cases "store_get k (jobs q)")
      case None
      then show ?thesis using False j by (simp add: abort_def)
    next
      case (Some x)
      from abort_found(3)[OF Some False] False j show ?thesis by simp
    qed
  qed
  from c a show ?thesis by blast
qed

theorem status_after_operation_witness:
  "map_option status (store_get ''A'' (jobs (snd (complete ''A'' success None example_queue)))) =
     Some COMPLETED \<and>
   map_option status (store_get ''A'' (jobs (snd (complete ''B'' success None example_queue)))) =
     Some PENDING \<and>
   map_option status (store_get ''A'' (jobs (snd (abort ''A'' example_queue)))) = Some ABORTING \<and>
   map_option status (store_get ''A'' (jobs (snd (abort ''B'' example_queue)))) = Some PENDING"
  using status_after_operation[OF example_queue_A, of "''A''" success None]
        status_after_operation[OF example_queue_A, of "''B''" success None]
  by (simp add: stored_job_def new_job_def)

text \<open>
  C7, as the counterexample: a job that allows no retry (\<open>maxRetries = 0\<close>) is added to
  the empty queue and completed with a \<open>PermanentJobError\<close>. Its \<open>retries\<close> is then \<open>1\<close>,
  above its \<open>maxRetries\<close>.
\<close>

theorem retries_exceed_maxRetries:
  "map retries (jobs (run example_fingerprint (empty_queue ''q'')
      [Add ((new_job ''task1'' input1)\<lparr>maxRetries := number 0\<rparr>) ''A'' ''r1'',
       Complete ''A'' JNull (Some (PermanentJobError ''no such model''))])) = [number 1] \<and>
   map maxRetries (jobs (run example_fingerprint (empty_queue ''q'')
      [Add ((new_job ''task1'' input1)\<lparr>maxRetries := number 0\<rparr>) ''A'' ''r1'',
       Complete ''A'' JNull (Some (PermanentJobError ''no such model''))])) = [number 0] \<and>
   number 0 < number 1"
  by (simp add: run_simps number_simps plus_one_def)

text \<open>
  C7, amended. \<open>complete\<close> with an error, on a stored job whose \<open>retries\<close> is below its
  \<open>maxRetries\<close>, leaves \<open>retries\<close> at most \<open>maxRetries\<close>; and whenever the incremented
  \<open>retries\<close> is at least \<open>maxRetries\<close>, the status of the job is \<open>FAILED\<close>.
\<close>

theorem complete_error_retry_bound:
  "store_get k (jobs q) = Some j \<Longrightarrow>
   (\<exists>j'. store_get k (jobs (snd (complete k out (Some e) q))) = Some j' \<and>
         maxRetries j' = maxRetries j \<and>
         (retries j < maxRetries j \<longrightarrow> retries j' \<le> maxRetries j') \<and>
         (retries j' \<ge> maxRetries j' \<longrightarrow> status j' = FAILED))"
  using complete_found(2)[of k q j out "Some e"] plus_one_le[of "retries j" "maxRetries j"]
  by (auto simp: complete_update_def Let_def plus_one_js_or_zero split: JobError.splits)

theorem complete_error_retry_bound_witness:
  "(\<exists>j'. store_get ''B'' (jobs (snd (complete ''B'' JNull
            (Some (RetryableJobError ''busy'' 5000)) example_queue))) = Some j' \<and>
         retries j' = number 1 \<and> maxRetries j' = number 1 \<and> status j' = FAILED)"
proof -
  have before: "retries ((stored_job ''B'' ''task2'' input2)\<lparr>maxRetries := number 1\<rparr>) <
      maxRetries ((stored_job ''B'' ''task2'' input2)\<lparr>maxRetries := number 1\<rparr>)"
    by (simp add: stored_job_def new_job_def number_simps)
  from complete_error_retry_bound[OF example_queue_B, of JNull "RetryableJobError ''busy'' 5000"]
  obtain j' where j': "store_get ''B'' (jobs (snd (complete ''B'' JNull
            (Some (RetryableJobError ''busy'' 5000)) example_queue))) = Some j'"
      "maxRetries j' = number 1" "retries j' \<le> maxRetries j'"
      "retries j' \<ge> maxRetries j' \<longrightarrow> status j' = FAILED"
    using before by (auto simp: stored_job_def new_job_def)
  from complete_found(2)[OF example_queue_B, of JNull "Some (RetryableJobError ''busy'' 5000)"] j'(1)
  have "retries j' = number 1"
    by (auto simp: complete_update_def stored_job_def new_job_def plus_one_def number_simps)
  with j' show ?thesis by (auto simp: number_simps)
qed

end
